theory Spec2Isabelle
  imports Main "HOL-Library.AList"
begin

section \<open>The custom user model of \<^verbatim>\<open>core/models.py\<close>\<close>

text \<open>
  The source file is one class statement:
  \<^verbatim>\<open>
  class User(AbstractUser):
      """Custom user model for dockerise_django project"""

      class Meta:
          db_table = 'dd_users'

      def __str__(self) -> str:
          return self.username
  \<close>
  The class body binds three names (the docstring, \<^verbatim>\<open>Meta\<close> and \<^verbatim>\<open>__str__\<close>); every
  other attribute of \<^verbatim>\<open>User\<close> comes from the base class \<^verbatim>\<open>AbstractUser\<close> of the
  framework, which is imported and not defined here.
\<close>

subsection \<open>Values, errors and instances\<close>

text \<open>Python values that an operation receives or returns.\<close>

datatype pyval = PyNone | PyBool bool | PyInt int | PyStr string

text \<open>An exception is the \<open>Inl\<close> branch of a result.\<close>

datatype error = TypeError | AttributeError | IntegrityError | DoesNotExist

text \<open>
  Modelled from the spec: the attributes of the framework's base user abstraction
  (\<^verbatim>\<open>django.contrib.auth.models.AbstractUser\<close>), which \<^verbatim>\<open>User\<close> inherits and which are
  not declared under src/: the identifier (\<open>pk\<close>, \<open>None\<close> until the instance has been
  persisted), username, password credential, names, email, the staff, active and
  superuser flags, the two timestamps and the relations to groups and permissions.
  A value of the record \<open>User\<close> is an instance all of whose fields are loaded and whose
  username, a text field, holds a string: what the constructor gives when it is called
  with a string username, and what a row of the table holds. An instance whose
  username is deferred, or holds a value that is no string, is not of this type; such
  instances are the values of \<open>user_obj\<close> below.
\<close>

record User =
  pk :: "nat option"
  password :: string
  last_login :: "int option"
  is_superuser :: bool
  username :: string
  first_name :: string
  last_name :: string
  email :: string
  is_staff :: bool
  is_active :: bool
  date_joined :: int
  groups :: "nat list"
  user_permissions :: "nat list"

text \<open>
  A method is called with its positional arguments, the state outside the instance
  (\<open>'w\<close>: the database, the clock, whatever the framework keeps) and the instance. It
  returns a value or raises, and hands back the outside state and the instance as it
  leaves them.
\<close>

type_synonym 'w operation =
  "pyval list \<Rightarrow> 'w \<Rightarrow> User \<Rightarrow> (error + pyval) \<times> 'w \<times> User"

subsection \<open>The class body\<close>

text \<open>
  \<^verbatim>\<open>User.__str__\<close>, that is \<^verbatim>\<open>def __str__(self) -> str: return self.username\<close>
  (the name is written \<open>User_str\<close>: an Isabelle name cannot hold the double underscores).
  The method has no parameter besides \<^verbatim>\<open>self\<close>; Python raises \<^verbatim>\<open>TypeError\<close> when it is
  called with more. The body reads one attribute and assigns nothing. This is the
  method on an instance of the record \<open>User\<close>, where the attribute read finds a string in
  the instance; \<open>User_str_obj\<close> below is the same body on any instance, and
  \<open>User_str_obj_of\<close> shows that the two agree on the instances of the record.
\<close>

definition User_str :: "'w operation" where
  "User_str args w self =
     (if args = [] then (Inr (PyStr (username self)), w, self)
      else (Inl TypeError, w, self))"

text \<open>\<^verbatim>\<open>class Meta: db_table = 'dd_users'\<close>: the options the class body sets, by name.\<close>

definition User_Meta :: "(string \<times> string) list" where
  "User_Meta = [(''db_table'', ''dd_users'')]"

text \<open>
  What a name of a class namespace can be bound to: a docstring, the inner options
  class, a field declaration (\<open>'f\<close>: the framework's field descriptors) or a method.
\<close>

datatype ('w, 'f) attr =
    Docstring string
  | MetaClass "(string \<times> string) list"
  | Field 'f
  | Method "'w operation"

text \<open>
  The names the body of \<^verbatim>\<open>class User\<close> binds, in source order. (Python adds
  \<^verbatim>\<open>__module__\<close> and \<^verbatim>\<open>__qualname__\<close> to every class statement; they are data
  attributes that name the class, not operations, and are left out.)
\<close>

definition User_body :: "(string \<times> ('w, 'f) attr) list" where
  "User_body =
     [(''__doc__'', Docstring ''Custom user model for dockerise_django project''),
      (''Meta'', MetaClass User_Meta),
      (''__str__'', Method User_str)]"

text \<open>
  Attribute lookup on \<^verbatim>\<open>User\<close> follows the method resolution order: the class's own
  namespace first, then the base class. The namespace of the base class is a parameter
  \<open>base\<close>, since \<^verbatim>\<open>AbstractUser\<close> is the framework's.
\<close>

definition User_getattr ::
  "(string \<rightharpoonup> ('w, 'f) attr) \<Rightarrow> string \<rightharpoonup> ('w, 'f) attr" where
  "User_getattr base = base ++ map_of User_body"

text \<open>
  Calling \<^verbatim>\<open>obj.name(*args)\<close> through a namespace: a name that is not bound raises
  \<^verbatim>\<open>AttributeError\<close>, a name bound to something that is not a method raises
  \<^verbatim>\<open>TypeError\<close>.
\<close>

definition call_method ::
  "(string \<rightharpoonup> ('w, 'f) attr) \<Rightarrow> string \<Rightarrow> 'w operation" where
  "call_method ns name args w self =
     (case ns name of
        None \<Rightarrow> (Inl AttributeError, w, self)
      | Some (Method m) \<Rightarrow> m args w self
      | Some _ \<Rightarrow> (Inl TypeError, w, self))"

text \<open>
  Python's \<^verbatim>\<open>str(obj)\<close>: it calls \<^verbatim>\<open>__str__\<close> of the object's class with no argument
  and raises \<^verbatim>\<open>TypeError\<close> when the method returns something that is not a string.
\<close>

definition str_builtin ::
  "(string \<rightharpoonup> ('w, 'f) attr) \<Rightarrow> 'w \<Rightarrow> User \<Rightarrow> (error + string) \<times> 'w \<times> User" where
  "str_builtin ns w self =
     (case call_method ns ''__str__'' [] w self of
        (Inr (PyStr s), w', self') \<Rightarrow> (Inr s, w', self')
      | (Inr _, w', self') \<Rightarrow> (Inl TypeError, w', self')
      | (Inl e, w', self') \<Rightarrow> (Inl e, w', self'))"


subsection \<open>Fields and options, as the framework reads the class body\<close>

text \<open>
  Modelled from the spec: how the framework's model metaclass, which is not under src/,
  gives a class its fields ("inherits all attributes defined by the base user
  abstraction", "adds no new attributes"). The fields a class body declares itself are
  the names it binds to a field declaration.
\<close>

definition local_fields :: "(string \<times> ('w, 'f) attr) list \<Rightarrow> (string \<times> 'f) list" where
  "local_fields body =
     concat (map (\<lambda>(n, a). case a of Field f \<Rightarrow> [(n, f)] | _ \<Rightarrow> []) body)"

text \<open>
  Modelled from the spec: a field of the abstract base class is inherited unless the
  class body binds its name again (to a new declaration, which redefines the field, or
  to anything else, which removes it).
\<close>

definition inherited_fields ::
  "(string \<times> 'f) list \<Rightarrow> (string \<times> ('w, 'f) attr) list \<Rightarrow> (string \<times> 'f) list" where
  "inherited_fields base_fields body =
     filter (\<lambda>(n, f). n \<notin> set (map fst body)) base_fields"

definition User_fields :: "(string \<times> 'f) list \<Rightarrow> (string \<times> 'f) list" where
  "User_fields base_fields =
     inherited_fields base_fields (User_body :: (string \<times> (unit, 'f) attr) list)
       @ local_fields (User_body :: (string \<times> (unit, 'f) attr) list)"

text \<open>
  Modelled from the spec: the attribute list of the base user abstraction as section 3
  of the spec gives it, with the kind of each field; the framework's declarations are
  not under src/.
\<close>

datatype field_kind =
  AutoField | CharField | EmailField | BooleanField | DateTimeField | ManyToManyField

definition AbstractUser_fields :: "(string \<times> field_kind) list" where
  "AbstractUser_fields =
     [(''id'', AutoField), (''password'', CharField), (''last_login'', DateTimeField),
      (''is_superuser'', BooleanField), (''username'', CharField),
      (''first_name'', CharField), (''last_name'', CharField), (''email'', EmailField),
      (''is_staff'', BooleanField), (''is_active'', BooleanField),
      (''date_joined'', DateTimeField), (''groups'', ManyToManyField),
      (''user_permissions'', ManyToManyField)]"

text \<open>Python's \<^verbatim>\<open>str.lower\<close> on the ASCII letters a class name is written in.\<close>

definition lower_char :: "char \<Rightarrow> char" where
  "lower_char c =
     (case map_of (zip ''ABCDEFGHIJKLMNOPQRSTUVWXYZ'' ''abcdefghijklmnopqrstuvwxyz'') c of
        Some l \<Rightarrow> l
      | None \<Rightarrow> c)"

definition lower :: "string \<Rightarrow> string" where
  "lower s = map lower_char s"

text \<open>
  Modelled from the spec: "the framework's default name" of a model's table, which the
  framework computes and src/ does not hold. Django joins the label of the application
  and the lowercased class name with an underscore
  (\<^verbatim>\<open>"%s_%s" % (app_label, model_name)\<close>).
\<close>

definition default_db_table :: "string \<Rightarrow> string \<Rightarrow> string" where
  "default_db_table app_label object_name = app_label @ ''_'' @ lower object_name"

text \<open>
  Modelled from the spec: the table name the framework settles on for a class with the
  options \<open>meta\<close>: the \<^verbatim>\<open>db_table\<close> the options give, and the default name when they
  give none or an empty one (\<^verbatim>\<open>if not self.db_table\<close>).
\<close>

definition Options_db_table :: "(string \<times> string) list \<Rightarrow> string \<Rightarrow> string \<Rightarrow> string" where
  "Options_db_table meta app_label object_name =
     (case map_of meta ''db_table'' of
        None \<Rightarrow> default_db_table app_label object_name
      | Some t \<Rightarrow> if t = [] then default_db_table app_label object_name else t)"

text \<open>
  The table of \<^verbatim>\<open>User\<close>. The module is \<^verbatim>\<open>core/models.py\<close>, so the application label
  is \<^verbatim>\<open>core\<close>; the theorems below hold for every label.
\<close>

definition User_db_table :: string where
  "User_db_table = Options_db_table User_Meta ''core'' ''User''"

subsection \<open>Persistence\<close>

text \<open>
  Modelled from the spec: the framework's persistence layer, which is not under src/.
  A database maps a table identifier to the rows of that table, each row an identifier
  and the instance stored under it.
\<close>

type_synonym table = "(nat \<times> User) list"

type_synonym database = "string \<Rightarrow> table"

text \<open>
  Modelled from the spec: the base class declares the username unique, so a row may not
  take the username of another row ("uniqueness violations on username").
\<close>

definition username_taken :: "table \<Rightarrow> User \<Rightarrow> bool" where
  "username_taken rows u =
     list_ex (\<lambda>(i, r). username r = username u \<and> pk u \<noteq> Some i) rows"

text \<open>Modelled from the spec: the identifier the store gives a new row, one not in use.\<close>

definition next_pk :: "table \<Rightarrow> nat" where
  "next_pk rows = Suc (fold max (map fst rows) 0)"

text \<open>
  Modelled from the spec: persisting an instance. It fails with the uniqueness
  violation and changes nothing when the username is taken; otherwise the instance is
  stored in the table of \<^verbatim>\<open>User\<close> under its identifier, a new one when it has none
  yet, and is handed back with that identifier set.
\<close>

definition save :: "database \<Rightarrow> User \<Rightarrow> (error + User) \<times> database" where
  "save db u =
     (let rows = db User_db_table in
      if username_taken rows u then (Inl IntegrityError, db)
      else
        let i = (case pk u of Some i \<Rightarrow> i | None \<Rightarrow> next_pk rows);
            u' = u\<lparr>pk := Some i\<rparr>
        in (Inr u', db(User_db_table := AList.update i u' rows)))"

text \<open>Modelled from the spec: creating a user persists an instance that has no identifier yet.\<close>

definition create :: "database \<Rightarrow> User \<Rightarrow> (error + User) \<times> database" where
  "create db u = save db (u\<lparr>pk := None\<rparr>)"

text \<open>Modelled from the spec: reloading an instance by its identifier.\<close>

definition get :: "database \<Rightarrow> nat \<Rightarrow> error + User" where
  "get db i =
     (case map_of (db User_db_table) i of
        None \<Rightarrow> Inl DoesNotExist
      | Some r \<Rightarrow> Inr r)"

subsection \<open>The attribute read on any instance\<close>

text \<open>
  What an instance holds in memory, as far as \<^verbatim>\<open>__str__\<close> can see it: its identifier,
  what it holds under the name \<^verbatim>\<open>username\<close> (\<open>None\<close> when the field is deferred and
  the instance holds nothing under that name, \<open>Some v\<close> when it holds the Python value
  \<open>v\<close>, a string or not, since Python does not enforce the annotation \<^verbatim>\<open>-> str\<close> nor
  the kind of the field), and the rest of its attributes (\<open>'r\<close>).
\<close>

record 'r user_obj =
  held_pk :: "nat option"
  held_username :: "pyval option"
  held_rest :: 'r

text \<open>An instance of the record \<open>User\<close> as a value of \<open>user_obj\<close>: everything is held.\<close>

definition obj_of :: "User \<Rightarrow> User user_obj" where
  "obj_of u = \<lparr>held_pk = pk u, held_username = Some (PyStr (username u)), held_rest = u\<rparr>"

text \<open>
  Modelled from the spec: what the framework, whose code is not under src/, does to
  load a deferred username: "reloading by identifier", here the username of the row
  stored under the identifier of the instance, and \<^verbatim>\<open>DoesNotExist\<close> when there is no
  such row.
\<close>

definition refresh_username :: "database \<Rightarrow> nat option \<Rightarrow> error + pyval" where
  "refresh_username db p =
     (case p of
        None \<Rightarrow> Inl DoesNotExist
      | Some i \<Rightarrow> (case get db i of Inl e \<Rightarrow> Inl e | Inr r \<Rightarrow> Inr (PyStr (username r))))"

text \<open>
  The expression \<^verbatim>\<open>self.username\<close>. When the instance holds a value under the name the
  read returns it. When the field is deferred the framework's descriptor loads it: the
  load (\<open>refresh\<close>, a parameter) reads the state outside the instance and either raises
  or gives the value, which is then stored in the instance and returned.
\<close>

definition getattr_username ::
  "('w \<Rightarrow> nat option \<Rightarrow> error + pyval) \<Rightarrow> 'w \<Rightarrow> 'r user_obj
     \<Rightarrow> (error + pyval) \<times> 'w \<times> 'r user_obj" where
  "getattr_username refresh w self =
     (case held_username self of
        Some v \<Rightarrow> (Inr v, w, self)
      | None \<Rightarrow>
          (case refresh w (held_pk self) of
             Inl e \<Rightarrow> (Inl e, w, self)
           | Inr v \<Rightarrow> (Inr v, w, self\<lparr>held_username := Some v\<rparr>)))"

text \<open>\<^verbatim>\<open>User.__str__\<close> on any instance: \<^verbatim>\<open>return self.username\<close>.\<close>

definition User_str_obj ::
  "('w \<Rightarrow> nat option \<Rightarrow> error + pyval) \<Rightarrow> pyval list \<Rightarrow> 'w \<Rightarrow> 'r user_obj
     \<Rightarrow> (error + pyval) \<times> 'w \<times> 'r user_obj" where
  "User_str_obj refresh args w self =
     (if args = [] then getattr_username refresh w self
      else (Inl TypeError, w, self))"

text \<open>
  Python's \<^verbatim>\<open>str(obj)\<close> on any instance of \<^verbatim>\<open>User\<close>, whose class binds \<^verbatim>\<open>__str__\<close> to
  the method above: \<^verbatim>\<open>TypeError\<close> when the method returns something that is no string.
\<close>

definition str_obj ::
  "('w \<Rightarrow> nat option \<Rightarrow> error + pyval) \<Rightarrow> 'w \<Rightarrow> 'r user_obj
     \<Rightarrow> (error + string) \<times> 'w \<times> 'r user_obj" where
  "str_obj refresh w self =
     (case User_str_obj refresh [] w self of
        (Inr (PyStr s), w', self') \<Rightarrow> (Inr s, w', self')
      | (Inr _, w', self') \<Rightarrow> (Inl TypeError, w', self')
      | (Inl e, w', self') \<Rightarrow> (Inl e, w', self'))"

subsection \<open>Sample data\<close>

text \<open>
  Concrete instances, databases and a base namespace, for the witnesses and the
  counterexample.
\<close>

text \<open>An instance loaded without its username, as a query that defers the field gives.\<close>

definition deferred_user :: "unit user_obj" where
  "deferred_user = \<lparr>held_pk = Some 1, held_username = None, held_rest = ()\<rparr>"

text \<open>An instance constructed with \<^verbatim>\<open>username=None\<close>.\<close>

definition none_user :: "unit user_obj" where
  "none_user = \<lparr>held_pk = None, held_username = Some PyNone, held_rest = ()\<rparr>"

definition alice :: User where
  "alice = \<lparr>pk = None, password = ''pbkdf2$a'', last_login = None, is_superuser = False,
     username = ''alice'', first_name = ''Alice'', last_name = ''A'',
     email = ''alice@example.org'', is_staff = False, is_active = True,
     date_joined = 1700000000, groups = [], user_permissions = []\<rparr>"

definition other_alice :: User where
  "other_alice = \<lparr>pk = Some 7, password = ''pbkdf2$b'', last_login = Some 1700000500,
     is_superuser = True, username = ''alice'', first_name = ''Other'', last_name = ''B'',
     email = ''root@example.org'', is_staff = True, is_active = False,
     date_joined = 1600000000, groups = [1, 2], user_permissions = [3]\<rparr>"

definition empty_db :: database where
  "empty_db = (\<lambda>_. [])"

text \<open>The database after \<^verbatim>\<open>alice\<close> has been created in the empty one.\<close>

definition alice_db :: database where
  "alice_db = empty_db(''dd_users'' := [(1, alice\<lparr>pk := Some 1\<rparr>)])"

text \<open>A base namespace with one operation of the framework's kind, a credential check.\<close>

definition sample_base :: "string \<rightharpoonup> (database, field_kind) attr" where
  "sample_base =
     [''check_password'' \<mapsto>
        Method (\<lambda>args w self.
          (case args of
             [PyStr raw] \<Rightarrow> (Inr (PyBool (password self = ''pbkdf2$'' @ raw)), w, self)
           | _ \<Rightarrow> (Inl TypeError, w, self))),
      ''__str__'' \<mapsto> Method (\<lambda>args w self. (Inr (PyStr ''base''), w, self))]"

section \<open>Properties\<close>

subsection \<open>Lookup in the class\<close>

lemma User_body_names:
  "map fst (User_body :: (string \<times> ('w, 'f) attr) list) = [''__doc__'', ''Meta'', ''__str__'']"
  by (simp add: User_body_def)

lemma User_getattr_str:
  "User_getattr base ''__str__'' = Some (Method User_str)"
  by (simp add: User_getattr_def User_body_def)

lemma User_getattr_other:
  assumes "name \<notin> {''__doc__'', ''Meta'', ''__str__''}"
  shows "User_getattr base name = base name"
proof -
  have "map_of (User_body :: (string \<times> ('a, 'b) attr) list) name = None"
    using assms by (simp add: User_body_def)
  then show ?thesis
    by (simp add: User_getattr_def map_add_def)
qed

lemma str_builtin_User:
  "str_builtin (User_getattr base) w self = (Inr (username self), w, self)"
  by (simp add: str_builtin_def call_method_def User_getattr_str User_str_def)

subsection \<open>The string representation\<close>

text \<open>
  Claim C1. For every instance and every username \<open>u\<close>, valid or not, an instance
  constructed with \<open>username = u\<close> (whatever its other attributes are, and whatever the
  base class defines, its own \<^verbatim>\<open>__str__\<close> included) renders as exactly \<open>u\<close>, both
  through \<^verbatim>\<open>str(user)\<close> and through a direct call of \<^verbatim>\<open>__str__\<close>.
\<close>

theorem C1_str_is_username:
  "fst (str_builtin (User_getattr base) w (self\<lparr>username := u\<rparr>)) = Inr u
   \<and> fst (User_str [] w (self\<lparr>username := u\<rparr>)) = Inr (PyStr u)"
  by (simp add: str_builtin_User User_str_def)

text \<open>
  Claim C8. \<^verbatim>\<open>__str__\<close> is total over the strings the username field can hold, with no
  validity condition: whatever string \<open>s\<close> is stored, the empty one included, it returns
  \<open>s\<close> itself and does not raise.
\<close>

theorem C8_str_total:
  "User_str [] w (self\<lparr>username := s\<rparr>) = (Inr (PyStr s), w, self\<lparr>username := s\<rparr>)
   \<and> User_str [] w (self\<lparr>username := []\<rparr>) = (Inr (PyStr []), w, self\<lparr>username := []\<rparr>)
   \<and> fst (str_builtin (User_getattr base) w (self\<lparr>username := []\<rparr>)) = Inr []"
  by (simp add: str_builtin_User User_str_def)

text \<open>
  Claim C9. The string representation depends on the username field only: two instances
  with equal usernames render equally, however their other fields and the states they
  are rendered in differ.
\<close>

theorem C9_str_depends_on_username_only:
  assumes "username a = username b"
  shows "fst (str_builtin (User_getattr base) w a) = fst (str_builtin (User_getattr base) w' b)
         \<and> fst (User_str [] w a) = fst (User_str [] w' b)"
  using assms by (simp add: str_builtin_User User_str_def)

text \<open>Two instances that share the username and differ in every other field.\<close>

theorem C9_witness:
  "username alice = username other_alice \<and> alice \<noteq> other_alice
   \<and> fst (str_builtin (User_getattr sample_base) empty_db alice)
       = fst (str_builtin (User_getattr sample_base) empty_db other_alice)
   \<and> fst (User_str [] empty_db alice) = fst (User_str [] empty_db other_alice)"
proof -
  have h: "username alice = username other_alice"
    by (simp add: alice_def other_alice_def)
  have d: "alice \<noteq> other_alice"
    by (simp add: alice_def other_alice_def)
  show ?thesis
    using h d C9_str_depends_on_username_only [OF h, of sample_base empty_db empty_db]
    by simp
qed

subsection \<open>The table identifier\<close>

lemma default_db_table_last: "last (default_db_table app_label ''User'') = CHR ''r''"
  by (simp add: default_db_table_def lower_def lower_char_def)

lemma dd_users_not_default: "''dd_users'' \<noteq> default_db_table app_label ''User''"
proof
  assume "''dd_users'' = default_db_table app_label ''User''"
  then have "last ''dd_users'' = last (default_db_table app_label ''User'')"
    by simp
  then show False
    by (simp add: default_db_table_last)
qed

lemma User_db_table_eq: "User_db_table = ''dd_users''"
  by (simp add: User_db_table_def Options_db_table_def User_Meta_def)

text \<open>
  Claim C2. The options of \<^verbatim>\<open>User\<close> set \<^verbatim>\<open>db_table\<close> to the constant \<^verbatim>\<open>dd_users\<close>; the
  table the framework settles on is that constant under every application label, and it
  differs from the default name the framework would have derived. The identifier is
  computed from the class's options alone: no instance and no operation is an argument
  of it.
\<close>

theorem C2_db_table:
  "map_of User_Meta ''db_table'' = Some ''dd_users''
   \<and> Options_db_table User_Meta app_label ''User'' = ''dd_users''
   \<and> Options_db_table User_Meta app_label ''User'' \<noteq> default_db_table app_label ''User''
   \<and> User_db_table = ''dd_users''"
  using dd_users_not_default [of app_label]
  by (simp add: Options_db_table_def User_Meta_def User_db_table_eq)

subsection \<open>Fields and inherited operations\<close>

text \<open>
  Claim C4. The class body of \<^verbatim>\<open>User\<close> declares no field, and the fields of \<^verbatim>\<open>User\<close>
  are exactly the fields of the base class, none added, removed or redefined, for every
  base class whose fields do not carry one of the three names the body binds (a
  docstring, \<^verbatim>\<open>Meta\<close> and \<^verbatim>\<open>__str__\<close> are not field names of the base user abstraction).
\<close>

theorem C4_no_new_fields:
  assumes "set (map fst base_fields) \<inter> {''__doc__'', ''Meta'', ''__str__''} = {}"
  shows "local_fields (User_body :: (string \<times> (unit, 'f) attr) list) = []
         \<and> User_fields base_fields = (base_fields :: (string \<times> 'f) list)"
proof -
  have l: "local_fields (User_body :: (string \<times> (unit, 'f) attr) list) = []"
    by (simp add: local_fields_def User_body_def)
  have "\<forall>x \<in> set base_fields. fst x \<notin> {''__doc__'', ''Meta'', ''__str__''}"
    using assms by force
  then have "filter (\<lambda>(n, f). n \<notin> {''__doc__'', ''Meta'', ''__str__''}) base_fields = base_fields"
    by (intro filter_True) auto
  then have "inherited_fields base_fields (User_body :: (string \<times> (unit, 'f) attr) list) = base_fields"
    by (simp add: inherited_fields_def User_body_names)
  with l show ?thesis
    by (simp add: User_fields_def)
qed

text \<open>The fields of the base user abstraction satisfy the hypothesis.\<close>

theorem C4_witness:
  "set (map fst AbstractUser_fields) \<inter> {''__doc__'', ''Meta'', ''__str__''} = {}
   \<and> User_fields AbstractUser_fields = AbstractUser_fields"
proof -
  have h: "set (map fst AbstractUser_fields) \<inter> {''__doc__'', ''Meta'', ''__str__''} = {}"
    by (simp add: AbstractUser_fields_def)
  show ?thesis
    using h C4_no_new_fields [OF h] by simp
qed

text \<open>
  Claim C5. Every name other than the three the class body binds (the string
  representation, the options class that configures the storage name, and the
  docstring, which is no operation) resolves on \<^verbatim>\<open>User\<close> to what the base class binds it
  to, so calling such an operation on \<^verbatim>\<open>User\<close> gives, on every arguments, outside state
  and instance, the result, the state and the instance that the base class's operation
  gives. The operations themselves are the framework's and stay a parameter.
\<close>

theorem C5_inherited_unchanged:
  assumes "name \<notin> {''__doc__'', ''Meta'', ''__str__''}"
  shows "User_getattr base name = base name
         \<and> call_method (User_getattr base) name args w self = call_method base name args w self"
  using User_getattr_other [OF assms, of base]
  by (simp add: call_method_def)

text \<open>A credential check of a base class, called through \<^verbatim>\<open>User\<close> and through the base.\<close>

theorem C5_witness:
  "''check_password'' \<notin> {''__doc__'', ''Meta'', ''__str__''}
   \<and> User_getattr sample_base ''check_password'' = sample_base ''check_password''
   \<and> call_method (User_getattr sample_base) ''check_password'' [PyStr ''a''] empty_db alice
       = (Inr (PyBool True), empty_db, alice)
   \<and> call_method sample_base ''check_password'' [PyStr ''a''] empty_db alice
       = (Inr (PyBool True), empty_db, alice)"
proof -
  have h: "''check_password'' \<notin> {''__doc__'', ''Meta'', ''__str__''}"
    by simp
  have c: "call_method sample_base ''check_password'' [PyStr ''a''] empty_db alice
       = (Inr (PyBool True), empty_db, alice)"
    by (simp add: call_method_def sample_base_def alice_def)
  show ?thesis
    using h c C5_inherited_unchanged [OF h, of sample_base "[PyStr ''a'']" empty_db alice]
    by simp
qed

subsection \<open>Persistence\<close>

lemma fold_max_ge: "a \<le> fold max xs (a::nat)"
  by (induction xs arbitrary: a) (auto intro: order_trans [OF max.cobounded2])

lemma fold_max_member: "x \<in> set xs \<Longrightarrow> x \<le> fold max xs (a::nat)"
proof (induction xs arbitrary: a)
  case Nil
  then show ?case by simp
next
  case (Cons y ys)
  show ?case
  proof (cases "x = y")
    case True
    have "y \<le> max y a" by simp
    also have "\<dots> \<le> fold max ys (max y a)" by (rule fold_max_ge)
    finally show ?thesis using True by simp
  next
    case False
    with Cons show ?thesis by simp
  qed
qed

text \<open>A new row never takes the identifier of a row that is there.\<close>

lemma next_pk_fresh: "next_pk rows \<notin> fst ` set rows"
proof
  assume "next_pk rows \<in> fst ` set rows"
  then have "next_pk rows \<in> set (map fst rows)" by simp
  then have "next_pk rows \<le> fold max (map fst rows) 0" by (rule fold_max_member)
  then show False by (simp add: next_pk_def)
qed

text \<open>Persisting a user writes to the table of \<^verbatim>\<open>User\<close> and to no other.\<close>

lemma save_frame: "t \<noteq> User_db_table \<Longrightarrow> snd (save db u) t = db t"
  by (simp add: save_def Let_def)

lemma update_member: "(k, v) \<in> set (AList.update k v al)"
  by (induction al) auto

lemma save_cases:
  "save db u = (Inl IntegrityError, db) \<and> username_taken (db User_db_table) u
   \<or> (\<exists>i. \<not> username_taken (db User_db_table) u
        \<and> save db u = (Inr (u\<lparr>pk := Some i\<rparr>),
             db(User_db_table := AList.update i (u\<lparr>pk := Some i\<rparr>) (db User_db_table))))"
  by (cases "username_taken (db User_db_table) u") (auto simp: save_def Let_def)

lemma username_takenI:
  assumes "(i, r) \<in> set rows" and "username r = username u" and "pk u = None"
  shows "username_taken rows u"
  using assms by (auto simp: username_taken_def list_ex_iff)

lemma username_taken_None:
  assumes "username_taken rows u" and "username v = username u" and "pk v = None"
  shows "username_taken rows v"
  using assms by (auto simp: username_taken_def list_ex_iff)

lemma save_then_taken:
  assumes "save db u1 = (r1, db1)" and "username u2 = username u1" and "pk u2 = None"
  shows "username_taken (db1 User_db_table) u2"
proof -
  consider (fail) "save db u1 = (Inl IntegrityError, db)" "username_taken (db User_db_table) u1"
    | (ok) i where "save db u1 = (Inr (u1\<lparr>pk := Some i\<rparr>),
             db(User_db_table := AList.update i (u1\<lparr>pk := Some i\<rparr>) (db User_db_table)))"
    using save_cases [of db u1] by blast
  then show ?thesis
  proof cases
    case fail
    with assms have "db1 = db" by simp
    with fail(2) assms(2,3) show ?thesis
      by (simp add: username_taken_None)
  next
    case (ok i)
    with assms have db1: "db1 = db(User_db_table := AList.update i (u1\<lparr>pk := Some i\<rparr>) (db User_db_table))"
      by simp
    have "(i, u1\<lparr>pk := Some i\<rparr>) \<in> set (db1 User_db_table)"
      by (simp add: db1 update_member)
    moreover have "username (u1\<lparr>pk := Some i\<rparr>) = username u2"
      using assms(2) by simp
    ultimately show ?thesis
      using assms(3) by (rule username_takenI)
  qed
qed

lemma save_taken:
  "username_taken (db User_db_table) u \<Longrightarrow> save db u = (Inl IntegrityError, db)"
  by (simp add: save_def)

lemma save_get:
  assumes "save db u = (Inr u', db')"
  shows "\<exists>i. u' = u\<lparr>pk := Some i\<rparr> \<and> get db' i = Inr u'"
proof -
  from assms obtain i where u': "u' = u\<lparr>pk := Some i\<rparr>"
    and db': "db' = db(User_db_table := AList.update i u' (db User_db_table))"
    using save_cases [of db u] by auto
  have "get db' i = Inr u'"
    by (simp add: get_def db' update_conv')
  with u' show ?thesis by blast
qed

lemma create_alice:
  "create empty_db alice = (Inr (alice\<lparr>pk := Some 1\<rparr>),
     empty_db(''dd_users'' := [(1, alice\<lparr>pk := Some 1\<rparr>)]))"
  by (simp add: create_def save_def username_taken_def next_pk_def empty_db_def
      User_db_table_eq Let_def)

lemma save_alice:
  "save empty_db alice = (Inr (alice\<lparr>pk := Some 1\<rparr>),
     empty_db(''dd_users'' := [(1, alice\<lparr>pk := Some 1\<rparr>)]))"
  by (simp add: save_def username_taken_def next_pk_def empty_db_def
      User_db_table_eq Let_def alice_def)

text \<open>
  Claim C3. Of two creations with the same username, the second fails with the
  uniqueness violation, whatever the database was before the first and whatever the
  other attributes are. It leaves the database as the first creation left it, so the
  row of the first, when that creation succeeded, is still reloaded unchanged.
\<close>

theorem C3_second_creation_fails:
  assumes "username u2 = username u1" and "create db u1 = (r1, db1)"
  shows "create db1 u2 = (Inl IntegrityError, db1)
         \<and> (\<forall>u1'. r1 = Inr u1' \<longrightarrow>
               (\<exists>i. pk u1' = Some i \<and> get (snd (create db1 u2)) i = Inr u1'))"
proof -
  have "username_taken (db1 User_db_table) (u2\<lparr>pk := None\<rparr>)"
    using assms by (intro save_then_taken [of db "u1\<lparr>pk := None\<rparr>" r1 db1]) (simp_all add: create_def)
  then have second: "create db1 u2 = (Inl IntegrityError, db1)"
    by (simp add: create_def save_taken)
  have "\<exists>i. pk u1' = Some i \<and> get db1 i = Inr u1'" if "r1 = Inr u1'" for u1'
    using that assms(2) save_get [of db "u1\<lparr>pk := None\<rparr>" u1' db1]
    by (auto simp: create_def)
  with second show ?thesis by simp
qed

text \<open>
  On the empty database the first creation succeeds, the second fails and the row of
  the first is still there.
\<close>

theorem C3_witness:
  "username other_alice = username alice
   \<and> create empty_db alice = (Inr (alice\<lparr>pk := Some 1\<rparr>),
        empty_db(''dd_users'' := [(1, alice\<lparr>pk := Some 1\<rparr>)]))
   \<and> create (empty_db(''dd_users'' := [(1, alice\<lparr>pk := Some 1\<rparr>)])) other_alice
       = (Inl IntegrityError, empty_db(''dd_users'' := [(1, alice\<lparr>pk := Some 1\<rparr>)]))
   \<and> get (empty_db(''dd_users'' := [(1, alice\<lparr>pk := Some 1\<rparr>)])) 1
       = Inr (alice\<lparr>pk := Some 1\<rparr>)"
proof -
  have h: "username other_alice = username alice"
    by (simp add: alice_def other_alice_def)
  have g: "get (empty_db(''dd_users'' := [(1, alice\<lparr>pk := Some 1\<rparr>)])) 1
       = Inr (alice\<lparr>pk := Some 1\<rparr>)"
    by (simp add: get_def User_db_table_eq)
  show ?thesis
    using h g create_alice C3_second_creation_fails [OF h create_alice]
    by simp
qed

text \<open>
  Claim C6. Round trip: when persisting an instance succeeds, the instance has an
  identifier, and reloading by that identifier yields an instance with the username of
  the original (it yields the persisted instance, field for field).
\<close>

theorem C6_save_get_roundtrip:
  assumes "save db u = (Inr u', db')"
  shows "\<exists>i. pk u' = Some i \<and> get db' i = Inr u' \<and> username u' = username u"
  using save_get [OF assms] by auto

text \<open>Persisting \<^verbatim>\<open>alice\<close> in the empty database and reloading the instance.\<close>

theorem C6_witness:
  "save empty_db alice = (Inr (alice\<lparr>pk := Some 1\<rparr>),
     empty_db(''dd_users'' := [(1, alice\<lparr>pk := Some 1\<rparr>)]))
   \<and> get (empty_db(''dd_users'' := [(1, alice\<lparr>pk := Some 1\<rparr>)])) 1 = Inr (alice\<lparr>pk := Some 1\<rparr>)
   \<and> username (alice\<lparr>pk := Some 1\<rparr>) = ''alice''"
proof -
  have u: "username alice = ''alice''" by (simp add: alice_def)
  show ?thesis
    using save_alice u C6_save_get_roundtrip [OF save_alice]
    by simp
qed

subsection \<open>The string representation on any instance\<close>

text \<open>
  On an instance of the record \<open>User\<close> the method on any instance is the method of the
  class body: same result, same outside state, same instance.
\<close>

lemma User_str_obj_of:
  "User_str_obj refresh args w (obj_of u)
     = (case User_str args w u of (r, w', u') \<Rightarrow> (r, w', obj_of u'))"
  by (simp add: User_str_obj_def getattr_username_def obj_of_def User_str_def)

lemma str_obj_of:
  "str_obj refresh w (obj_of u)
     = (case str_builtin (User_getattr base) w u of (r, w', u') \<Rightarrow> (r, w', obj_of u'))"
  by (simp add: str_obj_def User_str_obj_def getattr_username_def obj_of_def
      str_builtin_User)

text \<open>
  Claim C7, as stated for every instance, fails. On an instance whose username is
  deferred the read loads the field: with no row under the identifier it raises
  \<^verbatim>\<open>DoesNotExist\<close>; with a row it returns the row's username, which is state outside
  the instance, and stores it in the instance, which is thereby changed. On an instance
  that holds \<^verbatim>\<open>None\<close> under the name, \<^verbatim>\<open>str\<close> raises \<^verbatim>\<open>TypeError\<close>.
\<close>

theorem C7_counterexample:
  "fst (str_obj refresh_username empty_db deferred_user) = Inl DoesNotExist
   \<and> str_obj refresh_username alice_db deferred_user
       = (Inr ''alice'', alice_db, deferred_user\<lparr>held_username := Some (PyStr ''alice'')\<rparr>)
   \<and> deferred_user\<lparr>held_username := Some (PyStr ''alice'')\<rparr> \<noteq> deferred_user
   \<and> fst (str_obj refresh_username empty_db none_user) = Inl TypeError"
  by (simp add: str_obj_def User_str_obj_def getattr_username_def refresh_username_def
      get_def empty_db_def alice_db_def deferred_user_def none_user_def User_db_table_eq
      alice_def)

text \<open>
  Claim C7, amended. For every instance that holds a string under \<^verbatim>\<open>username\<close> (the
  field is loaded and its value is a string), the string representation raises no
  error, returns that string, and leaves the state outside the instance and the
  instance, every field of it, as they were; its result is the same in every outside
  state and with every way of loading: it reads nothing but the instance.
\<close>

theorem C7_str_pure_when_held:
  assumes "held_username self = Some (PyStr s)"
  shows "str_obj refresh w self = (Inr s, w, self)
         \<and> User_str_obj refresh [] w self = (Inr (PyStr s), w, self)
         \<and> fst (str_obj refresh w self) = fst (str_obj refresh' w' self)"
  using assms
  by (simp add: str_obj_def User_str_obj_def getattr_username_def)

text \<open>The instance \<^verbatim>\<open>alice\<close>, rendered in two databases.\<close>

theorem C7_witness:
  "held_username (obj_of alice) = Some (PyStr ''alice'')
   \<and> str_obj refresh_username alice_db (obj_of alice)
       = (Inr ''alice'', alice_db, obj_of alice)
   \<and> User_str_obj refresh_username [] alice_db (obj_of alice)
       = (Inr (PyStr ''alice''), alice_db, obj_of alice)
   \<and> fst (str_obj refresh_username empty_db (obj_of alice)) = Inr ''alice''"
proof -
  have h: "held_username (obj_of alice) = Some (PyStr ''alice'')"
    by (simp add: obj_of_def alice_def)
  note t = C7_str_pure_when_held [OF h, of refresh_username alice_db refresh_username empty_db]
  have a: "str_obj refresh_username alice_db (obj_of alice)
       = (Inr ''alice'', alice_db, obj_of alice)"
    by (rule t [THEN conjunct1])
  have b: "User_str_obj refresh_username [] alice_db (obj_of alice)
       = (Inr (PyStr ''alice''), alice_db, obj_of alice)"
    by (rule t [THEN conjunct2, THEN conjunct1])
  have "fst (str_obj refresh_username alice_db (obj_of alice))
       = fst (str_obj refresh_username empty_db (obj_of alice))"
    by (rule t [THEN conjunct2, THEN conjunct2])
  then have c: "fst (str_obj refresh_username empty_db (obj_of alice)) = Inr ''alice''"
    by (simp add: a)
  from h a b c show ?thesis
    by simp
qed

end
